theory Spec2Isabelle
  imports Complex_Main "HOL-Library.Sublist"
begin

section \<open>Python values\<close>

text \<open>
  What \<^verbatim>\<open>json.loads\<close> produces: \<^verbatim>\<open>None\<close>, booleans, integers, (finite) floats,
  strings, lists, and dicts. A dict is the list of its items, keys distinct, looked up
  with \<^const>\<open>map_of\<close>.
\<close>

datatype json =
    JNull
  | JBool bool
  | JInt int
  | JFloat rat
  | JStr string
  | JList "json list"
  | JObj "(string \<times> json) list"

text \<open>Python's truth value of an object, as \<^verbatim>\<open>if health:\<close> and \<^verbatim>\<open>if old_pid:\<close> test it.\<close>

fun py_bool :: "json \<Rightarrow> bool" where
  "py_bool JNull = False"
| "py_bool (JBool b) = b"
| "py_bool (JInt n) = (n \<noteq> 0)"
| "py_bool (JFloat q) = (q \<noteq> 0)"
| "py_bool (JStr s) = (s \<noteq> [])"
| "py_bool (JList xs) = (xs \<noteq> [])"
| "py_bool (JObj kvs) = (kvs \<noteq> [])"

text \<open>\<^verbatim>\<open>d.get(key, default)\<close> on a dict.\<close>

definition dict_get :: "(string \<times> json) list \<Rightarrow> string \<Rightarrow> json \<Rightarrow> json" where
  "dict_get d k dflt = (case map_of d k of None \<Rightarrow> dflt | Some v \<Rightarrow> v)"

text \<open>\<^verbatim>\<open>x == 0\<close>: true of the integer and the float zero, and of \<^verbatim>\<open>False\<close>.\<close>

fun py_eq_zero :: "json \<Rightarrow> bool" where
  "py_eq_zero (JInt n) = (n = 0)"
| "py_eq_zero (JFloat q) = (q = 0)"
| "py_eq_zero (JBool b) = (\<not> b)"
| "py_eq_zero _ = False"

text \<open>The exceptions that the modelled code can meet. \<^verbatim>\<open>URLError\<close>, \<^verbatim>\<open>HTTPError\<close>,
  \<^verbatim>\<open>TimeoutError\<close>, \<^verbatim>\<open>ProcessLookupError\<close> and \<^verbatim>\<open>PermissionError\<close> are all subclasses of
  \<^verbatim>\<open>OSError\<close>; \<^verbatim>\<open>json.JSONDecodeError\<close> is a \<^verbatim>\<open>ValueError\<close>.\<close>

datatype error =
    OSError
  | JSONDecodeError
  | AttributeError
  | TypeError
  | OverflowError
  | RuntimeError string

text \<open>\<^verbatim>\<open>str(n)\<close> for an integer, as an f-string formats it.\<close>

definition digit_char :: "nat \<Rightarrow> char" where
  "digit_char d = ''0123456789'' ! d"

fun digits :: "nat \<Rightarrow> string" where
  "digits n = (if n < 10 then [digit_char n] else digits (n div 10) @ [digit_char (n mod 10)])"

declare digits.simps [simp del]

definition str_int :: "int \<Rightarrow> string" where
  "str_int i = (if i < 0 then CHR ''-'' # digits (nat (- i)) else digits (nat i))"

section \<open>Module constants\<close>

text \<open>
  What the module reads once at import time. \<open>BUCKAROO_PORT\<close> is the integer that
  \<^verbatim>\<open>int(...)\<close> made of the environment variable, \<open>None\<close> when the variable is unset;
  \<open>buckaroo_version\<close> is \<^verbatim>\<open>buckaroo.__version__\<close>, \<open>None\<close> when the package has no such
  attribute; \<open>python_version\<close> is \<^verbatim>\<open>sys.version.split()[0]\<close>.
\<close>

record config =
  BUCKAROO_PORT :: "int option"
  sys_executable :: string
  python_version :: string
  LOG_DIR :: string
  buckaroo_version :: "string option"
  SESSION_ID :: string
  getpid :: int

definition SERVER_PORT :: "config \<Rightarrow> int" where
  "SERVER_PORT cfg = (case BUCKAROO_PORT cfg of None \<Rightarrow> 8700 | Some p \<Rightarrow> p)"

definition SERVER_URL :: "config \<Rightarrow> string" where
  "SERVER_URL cfg = ''http://localhost:'' @ str_int (SERVER_PORT cfg)"

text \<open>\<^verbatim>\<open>os.path.join(dir, name)\<close> for a directory that does not end in a slash.\<close>

definition path_join :: "string \<Rightarrow> string \<Rightarrow> string" where
  "path_join dir name = dir @ ''/'' @ name"

definition LOG_FILE :: "config \<Rightarrow> string" where
  "LOG_FILE cfg = path_join (LOG_DIR cfg) ''mcp_tool.log''"

definition server_log :: "config \<Rightarrow> string" where
  "server_log cfg = path_join (LOG_DIR cfg) ''server.log''"

definition expected_version :: "config \<Rightarrow> string" where
  "expected_version cfg = (case buckaroo_version cfg of None \<Rightarrow> ''unknown'' | Some v \<Rightarrow> v)"

section \<open>The world outside the process\<close>

text \<open>
  Every call that leaves the process is an event of the trace, in program order. Logging
  is not an event. Sleeps are in milliseconds, timeouts in seconds.
\<close>

datatype signal = SIGTERM | SIGKILL | SIGINT

datatype disposition = SIG_DFL | Handler

datatype event =
    Urlopen string nat
  | UrlopenPost string json nat
  | OsKill int signal
  | Sleep nat
  | OpenAppend string
  | Popen "string list"
  | ReadLog string
  | Poll int
  | Terminate int
  | Wait int nat
  | Kill int
  | SignalSignal signal disposition
  | Getppid
  | OsExit int

text \<open>
  What \<^verbatim>\<open>urlopen\<close> meets. A refused or reset connection and a timeout raise \<^verbatim>\<open>URLError\<close>
  or \<^verbatim>\<open>OSError\<close>; a status outside 2xx raises \<^verbatim>\<open>HTTPError\<close>, a \<^verbatim>\<open>URLError\<close>; otherwise
  a response object comes back, with its status and its body. The body is either text
  that \<^verbatim>\<open>json.loads\<close> decodes to a value or text that it rejects.
\<close>

datatype http_body = Json json | Malformed

datatype http_outcome =
    ConnectionFailure
  | Timeout
  | HTTPError nat
  | Response nat http_body

datatype log_read = NoFile | Unreadable | Lines "string list"

text \<open>
  The environment answers the \<open>n\<close>-th event of the trace: what the request meets, whether
  the system call fails with \<^verbatim>\<open>OSError\<close>, the pid of the process it spawns, whether the
  polled child still runs, whether the wait times out, the parent pid, the log file.
\<close>

record env =
  urlopen_at :: "nat \<Rightarrow> http_outcome"
  oserror_at :: "nat \<Rightarrow> bool"
  spawn_pid_at :: "nat \<Rightarrow> int"
  running_at :: "nat \<Rightarrow> bool"
  wait_expires_at :: "nat \<Rightarrow> bool"
  getppid_at :: "nat \<Rightarrow> int"
  log_at :: "nat \<Rightarrow> log_read"

datatype exit = Exited int | KilledBy signal

text \<open>
  The state of the supervisor: the trace so far, the two module-level handles (the pid
  of each \<^verbatim>\<open>Popen\<close> object, \<open>None\<close> for \<^verbatim>\<open>None\<close>), the dispositions of its signals, and
  how it ended, if it has.
\<close>

record world =
  trace :: "event list"
  server_proc :: "int option"
  server_monitor :: "int option"
  dispositions :: "signal \<Rightarrow> disposition"
  exit_status :: "exit option"

definition now :: "world \<Rightarrow> nat" where
  "now w = length (trace w)"

definition emit :: "event \<Rightarrow> world \<Rightarrow> world" where
  "emit e w = w\<lparr>trace := trace w @ [e]\<rparr>"

section \<open>Health probe\<close>

text \<open>
  \<^verbatim>\<open>_health_check\<close>: what the function makes of the outcome of its request. Only
  \<^verbatim>\<open>URLError\<close> and \<^verbatim>\<open>OSError\<close> are caught; a response with another status falls through
  to \<^verbatim>\<open>return None\<close>.
\<close>

fun health_result :: "http_outcome \<Rightarrow> error + json option" where
  "health_result (Response st b) =
     (if st = 200 then (case b of Json data \<Rightarrow> Inr (Some data) | Malformed \<Rightarrow> Inl JSONDecodeError)
      else Inr None)"
| "health_result ConnectionFailure = Inr None"
| "health_result Timeout = Inr None"
| "health_result (HTTPError st) = Inr None"

definition health_url :: "config \<Rightarrow> string" where
  "health_url cfg = SERVER_URL cfg @ ''/health''"

definition health_check :: "config \<Rightarrow> env \<Rightarrow> world \<Rightarrow> (error + json option) \<times> world" where
  "health_check cfg env w =
     (health_result (urlopen_at env (now w)), emit (Urlopen (health_url cfg) 2) w)"

section \<open>Startup failure message\<close>

text \<open>
  \<^verbatim>\<open>_read_server_log_tail\<close>: the last \<open>n_lines\<close> lines of the server log, joined; the
  placeholder when the file is not there or reading it fails with \<^verbatim>\<open>OSError\<close>.
\<close>

definition last_lines :: "nat \<Rightarrow> string list \<Rightarrow> string list" where
  "last_lines n ls = (if n = 0 then ls else drop (length ls - n) ls)"

definition read_server_log_tail :: "config \<Rightarrow> env \<Rightarrow> nat \<Rightarrow> world \<Rightarrow> string \<times> world" where
  "read_server_log_tail cfg env n_lines w =
     (case log_at env (now w) of
        Lines ls \<Rightarrow> (concat (last_lines n_lines ls), emit (ReadLog (server_log cfg)) w)
      | NoFile \<Rightarrow> (''(server log not found)'', emit (ReadLog (server_log cfg)) w)
      | Unreadable \<Rightarrow> (''(server log not found)'', emit (ReadLog (server_log cfg)) w))"

definition nl :: string where
  "nl = [CHR 0x0A]"

text \<open>\<^verbatim>\<open>_format_startup_failure\<close>: the text of the message, around the log tail.\<close>

definition startup_failure_text :: "config \<Rightarrow> string \<Rightarrow> string" where
  "startup_failure_text cfg tail =
     ''Buckaroo data server failed to start.'' @ nl @ nl @
     ''## Diagnostic info'' @ nl @
     ''- Python: '' @ sys_executable cfg @ '' ('' @ python_version cfg @ '')'' @ nl @
     ''- Server URL: '' @ SERVER_URL cfg @ nl @
     ''- Log dir: '' @ LOG_DIR cfg @ nl @ nl @
     ''## Server log (last 20 lines)'' @ nl @ ''```'' @ nl @ tail @ nl @ ''```'' @ nl @ nl @
     ''## What to check'' @ nl @
     ''1. Is port '' @ str_int (SERVER_PORT cfg) @ '' already in use? '' @
     ''(`lsof -i :'' @ str_int (SERVER_PORT cfg) @ ''`)'' @ nl @
     ''2. Check the full server log: `cat '' @ server_log cfg @ ''`'' @ nl @
     ''3. Check the MCP tool log: `cat '' @ LOG_FILE cfg @ ''`'' @ nl @
     ''4. Try starting the server manually: '' @
     ''`'' @ sys_executable cfg @ '' -m buckaroo.server --no-browser --port '' @
     str_int (SERVER_PORT cfg) @ ''`'' @ nl"

definition format_startup_failure :: "config \<Rightarrow> env \<Rightarrow> world \<Rightarrow> string \<times> world" where
  "format_startup_failure cfg env w =
     (case read_server_log_tail cfg env 20 w of (tail, w') \<Rightarrow> (startup_failure_text cfg tail, w'))"

section \<open>Watchdog spawner\<close>

text \<open>The program text that \<^verbatim>\<open>_start_server_monitor\<close> hands to the new interpreter.\<close>

definition monitor_code :: "int \<Rightarrow> string" where
  "monitor_code server_pid =
     ''import os, sys, signal'' @ nl @
     ''server_pid = '' @ str_int server_pid @ nl @
     ''sys.stdin.buffer.read()'' @ nl @
     ''try:'' @ nl @
     ''    os.kill(server_pid, signal.SIGTERM)'' @ nl @
     ''except OSError:'' @ nl @
     ''    pass'' @ nl"

text \<open>
  The program itself, as the new interpreter runs it, by what its standard input
  delivers: \<^verbatim>\<open>sys.stdin.buffer.read()\<close> returns at the end of the stream and not before,
  whatever is written meanwhile; then comes one \<^verbatim>\<open>os.kill\<close>, whose \<^verbatim>\<open>OSError\<close> is passed
  over, and the program ends. An input that has not ended leaves it blocked in the read:
  no result.
\<close>

datatype stdin_event = Written string | EndOfStream

fun monitor_program :: "int \<Rightarrow> bool \<Rightarrow> stdin_event list \<Rightarrow> (event list \<times> exit) option" where
  "monitor_program server_pid kill_raises [] = None"
| "monitor_program server_pid kill_raises (Written d # rest) =
     monitor_program server_pid kill_raises rest"
| "monitor_program server_pid kill_raises (EndOfStream # rest) =
     Some ([OsKill server_pid SIGTERM], Exited 0)"

definition monitor_cmd :: "config \<Rightarrow> int \<Rightarrow> string list" where
  "monitor_cmd cfg server_pid = [sys_executable cfg, ''-c'', monitor_code server_pid]"

text \<open>
  \<^verbatim>\<open>_start_server_monitor\<close>: one \<^verbatim>\<open>Popen\<close>; when it fails nothing is assigned and the
  error leaves the function.
\<close>

definition start_server_monitor :: "config \<Rightarrow> env \<Rightarrow> int \<Rightarrow> world \<Rightarrow> error option \<times> world" where
  "start_server_monitor cfg env server_pid w =
     (if oserror_at env (now w) then (Some OSError, emit (Popen (monitor_cmd cfg server_pid)) w)
      else (None, (emit (Popen (monitor_cmd cfg server_pid)) w)
                    \<lparr>server_monitor := Some (spawn_pid_at env (now w))\<rparr>))"

section \<open>Process launcher\<close>

record server_info =
  server_status :: string
  server_pid :: json
  server_uptime_s :: json

text \<open>The dict that \<^verbatim>\<open>ensure_server\<close> returns, built from a health report.\<close>

definition info_of :: "string \<Rightarrow> (string \<times> json) list \<Rightarrow> server_info" where
  "info_of status health =
     \<lparr>server_status = status,
      server_pid = dict_get health ''pid'' JNull,
      server_uptime_s = dict_get health ''uptime_s'' (JInt 0)\<rparr>"

text \<open>
  \<^verbatim>\<open>os.kill(pid, sig)\<close> on a value taken from the report: an integer must fit the C
  type of a pid, a boolean is an integer, anything else is a \<^verbatim>\<open>TypeError\<close>. The call is
  an event only when the argument converts.
\<close>

fun as_pid :: "json \<Rightarrow> error + int" where
  "as_pid (JInt n) = (if - (2 ^ 31) \<le> n \<and> n < 2 ^ 31 then Inr n else Inl OverflowError)"
| "as_pid (JBool b) = Inr (if b then 1 else 0)"
| "as_pid _ = Inl TypeError"

definition os_kill :: "env \<Rightarrow> json \<Rightarrow> signal \<Rightarrow> world \<Rightarrow> error option \<times> world" where
  "os_kill env pid sig w =
     (case as_pid pid of
        Inl e \<Rightarrow> (Some e, w)
      | Inr p \<Rightarrow> (if oserror_at env (now w) then Some OSError else None, emit (OsKill p sig) w))"

definition is_up :: "json option \<Rightarrow> bool" where
  "is_up health = (case health of None \<Rightarrow> False | Some h \<Rightarrow> py_bool h)"

text \<open>
  The teardown of a server of another version (the body of \<^verbatim>\<open>if old_pid:\<close>). An
  \<^verbatim>\<open>OSError\<close> anywhere in the \<^verbatim>\<open>try\<close> block ends the block and is logged; any other
  error leaves \<^verbatim>\<open>ensure_server\<close>.
\<close>

definition kill_old_server :: "config \<Rightarrow> env \<Rightarrow> json \<Rightarrow> world \<Rightarrow> error option \<times> world" where
  "kill_old_server cfg env old_pid w =
     (case os_kill env old_pid SIGTERM w of
        (Some e, w1) \<Rightarrow> (if e = OSError then (None, w1) else (Some e, w1))
      | (None, w1) \<Rightarrow>
          (case health_check cfg env (emit (Sleep 1000) w1) of
             (Inl e, w2) \<Rightarrow> (if e = OSError then (None, w2) else (Some e, w2))
           | (Inr health, w2) \<Rightarrow>
               (if is_up health then
                  (case os_kill env old_pid SIGKILL w2 of
                     (Some e, w3) \<Rightarrow> (if e = OSError then (None, w3) else (Some e, w3))
                   | (None, w3) \<Rightarrow> (None, emit (Sleep 500) w3))
                else (None, w2))))"

text \<open>
  The static-file check of a first start: the names of the files reported missing or
  empty. It only feeds a log line, but a report of the wrong shape has no \<^verbatim>\<open>items\<close> or
  \<^verbatim>\<open>get\<close>.
\<close>

fun missing_of :: "(string \<times> json) list \<Rightarrow> error + string list" where
  "missing_of [] = Inr []"
| "missing_of ((name, info) # rest) =
     (case info of
        JObj i \<Rightarrow>
          (case missing_of rest of
             Inl e \<Rightarrow> Inl e
           | Inr ms \<Rightarrow>
               Inr (if \<not> py_bool (dict_get i ''exists'' JNull)
                        \<or> py_eq_zero (dict_get i ''size_bytes'' (JInt 0))
                    then name # ms else ms))
      | _ \<Rightarrow> Inl AttributeError)"

definition missing_static :: "(string \<times> json) list \<Rightarrow> error + string list" where
  "missing_static health =
     (case dict_get health ''static_files'' (JObj []) of
        JObj items \<Rightarrow> missing_of items
      | _ \<Rightarrow> Inl AttributeError)"

text \<open>What the polling loop does with a report that is up: the \<open>started\<close> result.\<close>

definition started :: "json \<Rightarrow> error + server_info" where
  "started h =
     (case h of
        JObj health \<Rightarrow>
          (case missing_static health of
             Inl e \<Rightarrow> Inl e
           | Inr missing \<Rightarrow> Inr (info_of ''started'' health))
      | _ \<Rightarrow> Inl AttributeError)"

text \<open>
  The loop \<^verbatim>\<open>for i in range(20)\<close>, by the number of rounds left: sleep, probe, return
  on the first report that is up. \<open>Inr None\<close> is falling out of the loop.
\<close>

primrec wait_ready :: "nat \<Rightarrow> config \<Rightarrow> env \<Rightarrow> world \<Rightarrow> (error + server_info option) \<times> world" where
  "wait_ready 0 cfg env w = (Inr None, w)"
| "wait_ready (Suc n) cfg env w =
     (case health_check cfg env (emit (Sleep 250) w) of
        (Inl e, w') \<Rightarrow> (Inl e, w')
      | (Inr health, w') \<Rightarrow>
          (case health of
             None \<Rightarrow> wait_ready n cfg env w'
           | Some h \<Rightarrow>
               (if py_bool h then
                  (case started h of Inl e \<Rightarrow> (Inl e, w') | Inr info \<Rightarrow> (Inr (Some info), w'))
                else wait_ready n cfg env w')))"

definition server_cmd :: "config \<Rightarrow> string list" where
  "server_cmd cfg = [sys_executable cfg, ''-m'', ''buckaroo.server'']"

text \<open>
  The second half of \<^verbatim>\<open>ensure_server\<close>, from \<^verbatim>\<open>global _server_proc\<close> on: open the log,
  launch the server, start its monitor, poll, and raise when the loop runs out.
\<close>

definition start_server :: "config \<Rightarrow> env \<Rightarrow> world \<Rightarrow> (error + server_info) \<times> world" where
  "start_server cfg env w =
     (if oserror_at env (now w) then (Inl OSError, emit (OpenAppend (server_log cfg)) w)
      else
        (let w1 = emit (OpenAppend (server_log cfg)) w in
         if oserror_at env (now w1) then (Inl OSError, emit (Popen (server_cmd cfg)) w1)
         else
           (let pid = spawn_pid_at env (now w1);
                w2 = (emit (Popen (server_cmd cfg)) w1)\<lparr>server_proc := Some pid\<rparr>
            in case start_server_monitor cfg env pid w2 of
                 (Some e, w3) \<Rightarrow> (Inl e, w3)
               | (None, w3) \<Rightarrow>
                   (case wait_ready 20 cfg env w3 of
                      (Inl e, w4) \<Rightarrow> (Inl e, w4)
                    | (Inr (Some info), w4) \<Rightarrow> (Inr info, w4)
                    | (Inr None, w4) \<Rightarrow>
                        (case format_startup_failure cfg env w4 of
                           (msg, w5) \<Rightarrow> (Inl (RuntimeError msg), w5))))))"

text \<open>\<^verbatim>\<open>ensure_server\<close>.\<close>

definition ensure_server :: "config \<Rightarrow> env \<Rightarrow> world \<Rightarrow> (error + server_info) \<times> world" where
  "ensure_server cfg env w =
     (case health_check cfg env w of
        (Inl e, w1) \<Rightarrow> (Inl e, w1)
      | (Inr None, w1) \<Rightarrow> start_server cfg env w1
      | (Inr (Some h), w1) \<Rightarrow>
          (if py_bool h then
             (case h of
                JObj health \<Rightarrow>
                  (if dict_get health ''version'' (JStr ''unknown'') = JStr (expected_version cfg)
                   then (Inr (info_of ''reused'' health), w1)
                   else
                     (let old_pid = dict_get health ''pid'' JNull in
                      if py_bool old_pid then
                        (case kill_old_server cfg env old_pid w1 of
                           (Some e, w2) \<Rightarrow> (Inl e, w2)
                         | (None, w2) \<Rightarrow> start_server cfg env w2)
                      else start_server cfg env w1))
              | _ \<Rightarrow> (Inl AttributeError, w1))
           else start_server cfg env w1))"

section \<open>Cleanup and signal handling\<close>

text \<open>
  The \<^verbatim>\<open>try\<close> block of \<^verbatim>\<open>_cleanup_server\<close> on the server handle. An \<^verbatim>\<open>OSError\<close> from any
  call ends the block; \<^verbatim>\<open>TimeoutExpired\<close> from the wait leads to \<^verbatim>\<open>kill()\<close>, whose own
  \<^verbatim>\<open>OSError\<close> is caught by the outer handler.
\<close>

definition stop_server_proc :: "env \<Rightarrow> int \<Rightarrow> world \<Rightarrow> world" where
  "stop_server_proc env p w =
     (if oserror_at env (now w) \<or> \<not> running_at env (now w) then emit (Poll p) w
      else
        (let w1 = emit (Poll p) w in
         if oserror_at env (now w1) then emit (Terminate p) w1
         else
           (let w2 = emit (Terminate p) w1 in
            if oserror_at env (now w2) then emit (Wait p 3) w2
            else if wait_expires_at env (now w2) then emit (Kill p) (emit (Wait p 3) w2)
            else emit (Wait p 3) w2)))"

text \<open>The \<^verbatim>\<open>try\<close> block on the monitor handle: both errors are passed over.\<close>

definition stop_monitor :: "env \<Rightarrow> int \<Rightarrow> world \<Rightarrow> world" where
  "stop_monitor env m w =
     (if oserror_at env (now w) then emit (Terminate m) w
      else emit (Wait m 2) (emit (Terminate m) w))"

text \<open>\<^verbatim>\<open>_cleanup_server\<close>.\<close>

definition cleanup_server :: "env \<Rightarrow> world \<Rightarrow> world" where
  "cleanup_server env w =
     (let w1 = (case server_proc w of
                  None \<Rightarrow> w
                | Some p \<Rightarrow> (stop_server_proc env p w)\<lparr>server_proc := None\<rparr>)
      in case server_monitor w1 of
           None \<Rightarrow> w1
         | Some m \<Rightarrow> (stop_monitor env m w1)\<lparr>server_monitor := None\<rparr>)"

text \<open>
  \<^verbatim>\<open>os.kill(os.getpid(), signum)\<close>: the signal reaches the process itself. Under the
  default disposition each of these signals ends the process, which then reports the
  signal as the cause; under the installed handler the process goes on.
\<close>

definition kill_self :: "config \<Rightarrow> signal \<Rightarrow> world \<Rightarrow> world" where
  "kill_self cfg sig w =
     (let w1 = emit (OsKill (getpid cfg) sig) w in
      case dispositions w1 sig of
        SIG_DFL \<Rightarrow> w1\<lparr>exit_status := Some (KilledBy sig)\<rparr>
      | Handler \<Rightarrow> w1)"

text \<open>
  \<^verbatim>\<open>signal.signal(signum, signal.SIG_DFL)\<close>; the disposition of \<^verbatim>\<open>SIGKILL\<close> cannot be set.
\<close>

definition signal_signal :: "signal \<Rightarrow> disposition \<Rightarrow> world \<Rightarrow> error option \<times> world" where
  "signal_signal sig d w =
     (if sig = SIGKILL then (Some OSError, emit (SignalSignal sig d) w)
      else (None, (emit (SignalSignal sig d) w)\<lparr>dispositions := (dispositions w)(sig := d)\<rparr>))"

text \<open>\<^verbatim>\<open>_signal_handler\<close>.\<close>

definition signal_handler :: "config \<Rightarrow> env \<Rightarrow> signal \<Rightarrow> world \<Rightarrow> error option \<times> world" where
  "signal_handler cfg env signum w =
     (case signal_signal signum SIG_DFL (cleanup_server env w) of
        (Some e, w1) \<Rightarrow> (Some e, w1)
      | (None, w1) \<Rightarrow> (None, kill_self cfg signum w1))"

text \<open>The state of a freshly imported module: no handles, both handlers installed.\<close>

definition initial_world :: world where
  "initial_world =
     \<lparr>trace = [], server_proc = None, server_monitor = None,
      dispositions = (\<lambda>s. case s of SIGKILL \<Rightarrow> SIG_DFL | _ \<Rightarrow> Handler),
      exit_status = None\<rparr>"

section \<open>Orphan detector\<close>

text \<open>\<^verbatim>\<open>os._exit(code)\<close>: the process ends at once, with no exit handlers.\<close>

definition os_exit :: "int \<Rightarrow> world \<Rightarrow> world" where
  "os_exit code w = (emit (OsExit code) w)\<lparr>exit_status := Some (Exited code)\<rparr>"

text \<open>One round of the loop up to the comparison: sleep a second, read the parent pid.\<close>

definition watch_round :: "world \<Rightarrow> world" where
  "watch_round w = emit Getppid (emit (Sleep 1000) w)"

text \<open>
  \<^verbatim>\<open>_watcher\<close>, the body of the thread: \<^verbatim>\<open>while True\<close> has no exit but \<^verbatim>\<open>os._exit\<close>, so
  the loop that never sees the parent change has no result.
\<close>

partial_function (option) watcher :: "env \<Rightarrow> int \<Rightarrow> world \<Rightarrow> world option" where
  "watcher env original_ppid w =
     (if getppid_at env (now (emit (Sleep 1000) w)) \<noteq> original_ppid
      then Some (os_exit 0 (cleanup_server env (watch_round w)))
      else watcher env original_ppid (watch_round w))"

text \<open>\<^verbatim>\<open>_start_parent_watcher\<close>, with the thread run to its end.\<close>

definition start_parent_watcher :: "env \<Rightarrow> world \<Rightarrow> world option" where
  "start_parent_watcher env w = watcher env (getppid_at env (now w)) (emit Getppid w)"

section \<open>Load request\<close>

definition load_url :: "config \<Rightarrow> string" where
  "load_url cfg = SERVER_URL cfg @ ''/load''"

definition load_payload :: "config \<Rightarrow> string \<Rightarrow> json" where
  "load_payload cfg path =
     JObj [(''session'', JStr (SESSION_ID cfg)), (''path'', JStr path), (''mode'', JStr ''buckaroo'')]"

text \<open>
  \<^verbatim>\<open>_view_impl\<close> up to the response of the load request, for a path that is absolute
  already: both \<^verbatim>\<open>except\<close> blocks log and raise again. The summary that the rest of the
  function formats from the response has no effect outside the process and is left out.
\<close>

definition view_impl_load :: "config \<Rightarrow> env \<Rightarrow> string \<Rightarrow> world \<Rightarrow> (error + server_info \<times> nat \<times> http_body) \<times> world" where
  "view_impl_load cfg env path w =
     (case ensure_server cfg env w of
        (Inl e, w1) \<Rightarrow> (Inl e, w1)
      | (Inr info, w1) \<Rightarrow>
          (case urlopen_at env (now w1) of
             Response st body \<Rightarrow>
               (Inr (info, st, body), emit (UrlopenPost (load_url cfg) (load_payload cfg path) 30) w1)
           | _ \<Rightarrow> (Inl OSError, emit (UrlopenPost (load_url cfg) (load_payload cfg path) 30) w1)))"

section \<open>Example inputs\<close>

definition example_cfg :: config where
  "example_cfg =
     \<lparr>BUCKAROO_PORT = None, sys_executable = ''/usr/bin/python3'', python_version = ''3.12.0'',
      LOG_DIR = ''/home/u/.buckaroo/logs'', buckaroo_version = Some ''1.2.0'',
      SESSION_ID = ''0123456789ab'', getpid = 4242\<rparr>"

text \<open>An environment where nothing listens on the port and no system call fails.\<close>

definition quiet_env :: env where
  "quiet_env =
     \<lparr>urlopen_at = (\<lambda>n. ConnectionFailure), oserror_at = (\<lambda>n. False),
      spawn_pid_at = (\<lambda>n. 1000 + int n), running_at = (\<lambda>n. True),
      wait_expires_at = (\<lambda>n. False), getppid_at = (\<lambda>n. 77), log_at = (\<lambda>n. NoFile)\<rparr>"

text \<open>An environment where every request meets the same outcome.\<close>

definition answering :: "http_outcome \<Rightarrow> env" where
  "answering outcome = quiet_env\<lparr>urlopen_at := (\<lambda>n. outcome)\<rparr>"

definition report_501 :: "string \<Rightarrow> json" where
  "report_501 v = JObj [(''status'', JStr ''ok''), (''pid'', JInt 501), (''version'', JStr v)]"

definition running_world :: world where
  "running_world = initial_world\<lparr>server_proc := Some 1002, server_monitor := Some 1003\<rparr>"

text \<open>An environment where the parent pid changes after the fifth event.\<close>

definition orphaned_env :: env where
  "orphaned_env = quiet_env\<lparr>getppid_at := (\<lambda>n. if n < 5 then 77 else 1)\<rparr>"

text \<open>
  An environment where a server of version 1.1.0 answers every probe and cannot be
  signalled: the \<^verbatim>\<open>os.kill\<close> of either call fails (events 1 and 8).
\<close>

definition stale_env :: env where
  "stale_env = (answering (Response 200 (Json (report_501 ''1.1.0''))))\<lparr>oserror_at := (\<lambda>n. n = 1 \<or> n = 8)\<rparr>"

text \<open>An environment where nothing answers the first probe and version 1.2.0 answers all later ones.\<close>

definition fresh_env :: env where
  "fresh_env = quiet_env\<lparr>urlopen_at :=
     (\<lambda>n. if n = 0 then ConnectionFailure else Response 200 (Json (report_501 ''1.2.0'')))\<rparr>"

text \<open>The same configuration with \<^verbatim>\<open>BUCKAROO_PORT=9000\<close>.\<close>

definition port_9000_cfg :: config where
  "port_9000_cfg = example_cfg\<lparr>BUCKAROO_PORT := Some 9000\<rparr>"

section \<open>Predicates on traces\<close>

text \<open>
  An event that keeps to the configured port: a spawn is the fixed server command or the
  watchdog's \<^verbatim>\<open>-c\<close> command, a probe goes to \<^verbatim>\<open>/health\<close> and a load request to \<^verbatim>\<open>/load\<close>
  on the port of the configuration.
\<close>

definition launch_ok :: "config \<Rightarrow> event \<Rightarrow> bool" where
  "launch_ok cfg e =
     (case e of
        Popen cmd \<Rightarrow>
          cmd = [sys_executable cfg, ''-m'', ''buckaroo.server'']
          \<or> (length cmd = 3 \<and> take 2 cmd = [sys_executable cfg, ''-c''])
      | Urlopen url t \<Rightarrow> url = ''http://localhost:'' @ str_int (SERVER_PORT cfg) @ ''/health''
      | UrlopenPost url d t \<Rightarrow> url = ''http://localhost:'' @ str_int (SERVER_PORT cfg) @ ''/load''
      | _ \<Rightarrow> True)"

text \<open>The events that neither spawn a process nor open a file.\<close>

definition quiet_event :: "config \<Rightarrow> event \<Rightarrow> bool" where
  "quiet_event cfg e =
     (case e of
        Urlopen url t \<Rightarrow> url = health_url cfg \<and> t = 2
      | OsKill p s \<Rightarrow> True
      | Sleep n \<Rightarrow> True
      | ReadLog f \<Rightarrow> f = server_log cfg
      | _ \<Rightarrow> False)"

text \<open>The later state has the trace of the earlier one, and then only events of \<open>P\<close>.\<close>

definition extends_by :: "(event \<Rightarrow> bool) \<Rightarrow> world \<Rightarrow> world \<Rightarrow> bool" where
  "extends_by P w w' = (\<exists>es. trace w' = trace w @ es \<and> list_all P es)"

section \<open>Basic facts\<close>

lemma trace_emit [simp]: "trace (emit e w) = trace w @ [e]"
  by (simp add: emit_def)

lemma now_emit [simp]: "now (emit e w) = Suc (now w)"
  by (simp add: emit_def now_def)

lemma handles_emit [simp]:
  "server_proc (emit e w) = server_proc w"
  "server_monitor (emit e w) = server_monitor w"
  "dispositions (emit e w) = dispositions w"
  "exit_status (emit e w) = exit_status w"
  by (simp_all add: emit_def)

lemma now_update [simp]:
  "now (w\<lparr>server_proc := x\<rparr>) = now w"
  "now (w\<lparr>server_monitor := y\<rparr>) = now w"
  "now (w\<lparr>dispositions := d\<rparr>) = now w"
  "now (w\<lparr>exit_status := s\<rparr>) = now w"
  by (simp_all add: now_def)

lemma now_initial_world [simp]: "now initial_world = 0"
  by (simp add: now_def initial_world_def)

lemma trace_initial_world [simp]: "trace initial_world = []"
  by (simp add: initial_world_def)

lemma urlopen_at_answering [simp]: "urlopen_at (answering outcome) n = outcome"
  by (simp add: answering_def)

lemma example_urls:
  "SERVER_URL example_cfg = ''http://localhost:8700''"
  "health_url example_cfg = ''http://localhost:8700/health''"
  "load_url example_cfg = ''http://localhost:8700/load''"
  by (simp_all add: health_url_def load_url_def SERVER_URL_def SERVER_PORT_def example_cfg_def
        str_int_def digits.simps digit_char_def)

lemma example_expected_version: "expected_version example_cfg = ''1.2.0''"
  by (simp add: expected_version_def example_cfg_def)

lemma running_world_simps [simp]:
  "trace running_world = []" "now running_world = 0"
  "server_proc running_world = Some 1002" "server_monitor running_world = Some 1003"
  by (simp_all add: running_world_def now_def)

lemma quiet_env_simps [simp]:
  "oserror_at quiet_env n = False" "running_at quiet_env n = True"
  "wait_expires_at quiet_env n = False" "spawn_pid_at quiet_env n = 1000 + int n"
  "urlopen_at quiet_env n = ConnectionFailure" "getppid_at quiet_env n = 77"
  "log_at quiet_env n = NoFile"
  by (simp_all add: quiet_env_def)

lemma snd_health_check [simp]:
  "snd (health_check cfg env w) = emit (Urlopen (health_url cfg) 2) w"
  by (simp add: health_check_def)

lemma fst_health_check [simp]:
  "fst (health_check cfg env w) = health_result (urlopen_at env (now w))"
  by (simp add: health_check_def)

section \<open>Health probe: what the caller gets\<close>




section \<open>Reuse of a running server\<close>

text \<open>
  C5: when the probe returns the report \<open>{status: ok, pid: 501, version: 1.2.0}\<close> and the
  expected version is 1.2.0, \<^verbatim>\<open>ensure_server\<close> returns a result with status \<open>reused\<close> and
  pid 501, and the probe is the only thing it does: nothing is spawned and the handles
  stay as they were.
\<close>

theorem ensure_server_reuses_matching:
  assumes "urlopen_at env (now w) = Response 200 (Json (report_501 ''1.2.0''))"
    and "expected_version cfg = ''1.2.0''"
  shows "ensure_server cfg env w =
           (Inr \<lparr>server_status = ''reused'', server_pid = JInt 501, server_uptime_s = JInt 0\<rparr>,
            w\<lparr>trace := trace w @ [Urlopen (health_url cfg) 2]\<rparr>)"
  using assms
  by (simp add: ensure_server_def health_check_def report_501_def info_of_def dict_get_def emit_def)

theorem ensure_server_reuses_matching_witness:
  "ensure_server example_cfg (answering (Response 200 (Json (report_501 ''1.2.0'')))) initial_world =
     (Inr \<lparr>server_status = ''reused'', server_pid = JInt 501, server_uptime_s = JInt 0\<rparr>,
      initial_world\<lparr>trace := [Urlopen ''http://localhost:8700/health'' 2]\<rparr>)"
proof -
  have a: "urlopen_at (answering (Response 200 (Json (report_501 ''1.2.0'')))) (now initial_world)
             = Response 200 (Json (report_501 ''1.2.0''))"
    by simp
  show ?thesis
    using ensure_server_reuses_matching [OF a example_expected_version]
    by (simp add: example_urls)
qed

section \<open>Cleanup\<close>

lemma stop_server_proc_handles [simp]:
  "server_proc (stop_server_proc env p w) = server_proc w"
  "server_monitor (stop_server_proc env p w) = server_monitor w"
  "dispositions (stop_server_proc env p w) = dispositions w"
  "exit_status (stop_server_proc env p w) = exit_status w"
  by (simp_all add: stop_server_proc_def Let_def)

lemma stop_monitor_handles [simp]:
  "server_proc (stop_monitor env m w) = server_proc w"
  "server_monitor (stop_monitor env m w) = server_monitor w"
  "dispositions (stop_monitor env m w) = dispositions w"
  "exit_status (stop_monitor env m w) = exit_status w"
  by (simp_all add: stop_monitor_def)

lemma cleanup_server_handles [simp]:
  "server_proc (cleanup_server env w) = None"
  "server_monitor (cleanup_server env w) = None"
  "dispositions (cleanup_server env w) = dispositions w"
  "exit_status (cleanup_server env w) = exit_status w"
  by (simp_all add: cleanup_server_def Let_def split: option.splits)

lemma cleanup_server_no_handles:
  "server_proc w = None \<Longrightarrow> server_monitor w = None \<Longrightarrow> cleanup_server env w = w"
  by (simp add: cleanup_server_def)

text \<open>
  C6: \<^verbatim>\<open>_cleanup_server\<close> acts on a handle only when it is not \<open>None\<close> and leaves both
  handles \<open>None\<close>; run again on the state it leaves, it changes nothing: the trace gains
  no event (no signal, no wait) and the handles stay \<open>None\<close>.
\<close>

theorem cleanup_server_idempotent:
  "server_proc (cleanup_server env w) = None \<and>
   server_monitor (cleanup_server env w) = None \<and>
   cleanup_server env (w\<lparr>server_proc := None, server_monitor := None\<rparr>)
     = w\<lparr>server_proc := None, server_monitor := None\<rparr> \<and>
   cleanup_server env (cleanup_server env w) = cleanup_server env w \<and>
   trace (cleanup_server env (cleanup_server env w)) = trace (cleanup_server env w)"
  by (simp add: cleanup_server_no_handles)

section \<open>Signal handler\<close>

text \<open>
  C7: for \<^verbatim>\<open>SIGTERM\<close> and \<^verbatim>\<open>SIGINT\<close> the handler first does what \<^verbatim>\<open>_cleanup_server\<close>
  does, then sets the disposition of the signal to the default and sends the same signal
  to its own process, which ends the process with that signal as the cause.
\<close>

theorem signal_handler_cleans_up_then_reraises:
  assumes "signum = SIGTERM \<or> signum = SIGINT"
  shows "fst (signal_handler cfg env signum w) = None \<and>
         trace (snd (signal_handler cfg env signum w)) =
           trace (cleanup_server env w) @ [SignalSignal signum SIG_DFL, OsKill (getpid cfg) signum] \<and>
         server_proc (snd (signal_handler cfg env signum w)) = None \<and>
         server_monitor (snd (signal_handler cfg env signum w)) = None \<and>
         dispositions (snd (signal_handler cfg env signum w)) signum = SIG_DFL \<and>
         exit_status (snd (signal_handler cfg env signum w)) = Some (KilledBy signum)"
  using assms
  by (auto simp: signal_handler_def signal_signal_def kill_self_def Let_def)

lemma cleanup_running_world:
  "trace (cleanup_server quiet_env running_world) =
     [Poll 1002, Terminate 1002, Wait 1002 3, Terminate 1003, Wait 1003 2]"
  by (simp add: cleanup_server_def stop_server_proc_def stop_monitor_def Let_def)

theorem signal_handler_cleans_up_then_reraises_witness:
  "fst (signal_handler example_cfg quiet_env SIGTERM running_world) = None \<and>
   trace (snd (signal_handler example_cfg quiet_env SIGTERM running_world)) =
     [Poll 1002, Terminate 1002, Wait 1002 3, Terminate 1003, Wait 1003 2,
      SignalSignal SIGTERM SIG_DFL, OsKill 4242 SIGTERM] \<and>
   server_proc (snd (signal_handler example_cfg quiet_env SIGTERM running_world)) = None \<and>
   server_monitor (snd (signal_handler example_cfg quiet_env SIGTERM running_world)) = None \<and>
   dispositions (snd (signal_handler example_cfg quiet_env SIGTERM running_world)) SIGTERM = SIG_DFL \<and>
   exit_status (snd (signal_handler example_cfg quiet_env SIGTERM running_world)) = Some (KilledBy SIGTERM)"
  using signal_handler_cleans_up_then_reraises [of SIGTERM example_cfg quiet_env running_world]
  by (simp add: cleanup_running_world example_cfg_def)

section \<open>Watchdog program\<close>

text \<open>
  The watchdog's own part: it sends nothing while its input is open, whatever is written
  to it, and once the input ends it sends exactly one \<^verbatim>\<open>SIGTERM\<close> to the server pid and
  exits, whether or not the signal could be delivered.
\<close>

lemma monitor_program_blocked:
  "monitor_program pid kill_raises (map Written ds) = None"
  by (induction ds) simp_all

lemma monitor_program_end_of_stream:
  "monitor_program pid kill_raises (map Written ds @ EndOfStream # rest) =
     Some ([OsKill pid SIGTERM], Exited 0)"
  by (induction ds) simp_all

section \<open>Orphan detector: exit on a changed parent\<close>

lemma now_watch_round [simp]: "now (watch_round w) = now w + 2"
  by (simp add: watch_round_def)

lemma watch_round_handles [simp]:
  "server_proc (watch_round w) = server_proc w"
  "server_monitor (watch_round w) = server_monitor w"
  "trace (watch_round w) = trace w @ [Sleep 1000, Getppid]"
  by (simp_all add: watch_round_def)

lemma watch_rounds_trace:
  "trace ((watch_round ^^ n) w) = trace w @ concat (replicate n [Sleep 1000, Getppid]) \<and>
   server_proc ((watch_round ^^ n) w) = server_proc w \<and>
   server_monitor ((watch_round ^^ n) w) = server_monitor w"
proof (induction n arbitrary: w)
  case 0
  show ?case by simp
next
  case (Suc n)
  have "(watch_round ^^ Suc n) w = (watch_round ^^ n) (watch_round w)"
    by (simp add: funpow_swap1)
  then show ?case using Suc [of "watch_round w"] by simp
qed

lemma watcher_rounds:
  assumes "\<forall>i<k. getppid_at env (now w + 2 * i + 1) = original_ppid"
    and "getppid_at env (now w + 2 * k + 1) \<noteq> original_ppid"
  shows "watcher env original_ppid w =
           Some (os_exit 0 (cleanup_server env ((watch_round ^^ Suc k) w)))"
  using assms
proof (induction k arbitrary: w)
  case 0
  then show ?case by (subst watcher.simps) simp
next
  case (Suc k)
  from Suc.prems(1) have first: "getppid_at env (now w + 1) = original_ppid"
    by (metis add.right_neutral mult_zero_right zero_less_Suc)
  have rest: "\<forall>i<k. getppid_at env (now (watch_round w) + 2 * i + 1) = original_ppid"
  proof (intro allI impI)
    fix i assume "i < k"
    then have "Suc i < Suc k" by simp
    with Suc.prems(1) have "getppid_at env (now w + 2 * Suc i + 1) = original_ppid" by blast
    then show "getppid_at env (now (watch_round w) + 2 * i + 1) = original_ppid"
      by (simp add: add.commute add.left_commute)
  qed
  have last: "getppid_at env (now (watch_round w) + 2 * k + 1) \<noteq> original_ppid"
    using Suc.prems(2) by (simp add: add.commute add.left_commute)
  have "watcher env original_ppid w = watcher env original_ppid (watch_round w)"
    using first by (subst watcher.simps) simp
  also have "\<dots> = Some (os_exit 0 (cleanup_server env ((watch_round ^^ Suc k) (watch_round w))))"
    by (rule Suc.IH [OF rest last])
  also have "(watch_round ^^ Suc k) (watch_round w) = (watch_round ^^ Suc (Suc k)) w"
    by (simp add: funpow_swap1)
  finally show ?case .
qed

text \<open>
  C9: the watcher records the parent pid once, then sleeps a second and reads it again,
  round after round; in the first round whose reading differs from the recorded pid it
  runs \<^verbatim>\<open>_cleanup_server\<close> and then ends the process with \<^verbatim>\<open>os._exit(0)\<close>, and does
  nothing after that.
\<close>

theorem parent_watcher_exits_on_change:
  assumes same: "\<forall>i<k. getppid_at env (now w + 2 * i + 2) = getppid_at env (now w)"
    and changed: "getppid_at env (now w + 2 * k + 2) \<noteq> getppid_at env (now w)"
  shows "\<exists>seen w'.
           seen = (watch_round ^^ Suc k) (emit Getppid w) \<and>
           trace seen = trace w @ Getppid # concat (replicate (Suc k) [Sleep 1000, Getppid]) \<and>
           start_parent_watcher env w = Some w' \<and>
           trace w' = trace (cleanup_server env seen) @ [OsExit 0] \<and>
           server_proc w' = None \<and> server_monitor w' = None \<and>
           exit_status w' = Some (Exited 0)"
proof -
  have a: "\<forall>i<k. getppid_at env (now (emit Getppid w) + 2 * i + 1) = getppid_at env (now w)"
    using same by simp
  have b: "getppid_at env (now (emit Getppid w) + 2 * k + 1) \<noteq> getppid_at env (now w)"
    using changed by simp
  have "start_parent_watcher env w =
          Some (os_exit 0 (cleanup_server env ((watch_round ^^ Suc k) (emit Getppid w))))"
    unfolding start_parent_watcher_def by (rule watcher_rounds [OF a b])
  moreover have "trace ((watch_round ^^ Suc k) (emit Getppid w)) =
      trace w @ Getppid # concat (replicate (Suc k) [Sleep 1000, Getppid])"
    using watch_rounds_trace [of "Suc k" "emit Getppid w"] by simp
  ultimately show ?thesis
    by (simp add: os_exit_def)
qed

theorem parent_watcher_exits_on_change_witness:
  "\<exists>w'. start_parent_watcher orphaned_env running_world = Some w' \<and>
        trace w' =
          [Getppid, Sleep 1000, Getppid, Sleep 1000, Getppid, Sleep 1000, Getppid,
           Poll 1002, Terminate 1002, Wait 1002 3, Terminate 1003, Wait 1003 2, OsExit 0] \<and>
        server_proc w' = None \<and> server_monitor w' = None \<and>
        exit_status w' = Some (Exited 0)"
proof -
  have same: "\<forall>i<2. getppid_at orphaned_env (now running_world + 2 * i + 2)
                 = getppid_at orphaned_env (now running_world)"
    by (auto simp: orphaned_env_def less_Suc_eq numeral_2_eq_2)
  have changed: "getppid_at orphaned_env (now running_world + 2 * 2 + 2)
                   \<noteq> getppid_at orphaned_env (now running_world)"
    by (simp add: orphaned_env_def)
  from parent_watcher_exits_on_change [OF same changed]
  obtain seen w' where
    seen: "seen = (watch_round ^^ Suc 2) (emit Getppid running_world)"
    and tr: "trace seen = trace running_world @ Getppid # concat (replicate (Suc 2) [Sleep 1000, Getppid])"
    and run: "start_parent_watcher orphaned_env running_world = Some w'"
    and fin: "trace w' = trace (cleanup_server orphaned_env seen) @ [OsExit 0]"
      "server_proc w' = None" "server_monitor w' = None" "exit_status w' = Some (Exited 0)"
    by blast
  have h: "server_proc seen = Some 1002" "server_monitor seen = Some 1003"
    using watch_rounds_trace [of "Suc 2" "emit Getppid running_world"] seen by simp_all
  have t: "trace seen = [Getppid, Sleep 1000, Getppid, Sleep 1000, Getppid, Sleep 1000, Getppid]"
    using tr by (simp add: numeral_2_eq_2)
  have "trace (cleanup_server orphaned_env seen) =
          trace seen @ [Poll 1002, Terminate 1002, Wait 1002 3, Terminate 1003, Wait 1003 2]"
    using h t
    by (simp add: cleanup_server_def stop_server_proc_def stop_monitor_def Let_def now_def
          orphaned_env_def)
  with fin run t show ?thesis by simp
qed

section \<open>The shape of a launch\<close>

lemma quiet_event_simps [simp]:
  "quiet_event cfg (Urlopen (health_url cfg) 2)"
  "quiet_event cfg (OsKill p s)"
  "quiet_event cfg (Sleep n)"
  "quiet_event cfg (ReadLog (server_log cfg))"
  "\<not> quiet_event cfg (Popen cmd)"
  "\<not> quiet_event cfg (OpenAppend f)"
  by (simp_all add: quiet_event_def)

lemma extends_by_refl [simp]: "extends_by P w w"
  by (simp add: extends_by_def)

lemma extends_by_trans: "extends_by P w w1 \<Longrightarrow> extends_by P w1 w2 \<Longrightarrow> extends_by P w w2"
  by (auto simp: extends_by_def)

lemma extends_by_mono: "extends_by P w w' \<Longrightarrow> (\<And>e. P e \<Longrightarrow> Q e) \<Longrightarrow> extends_by Q w w'"
  by (auto simp: extends_by_def list_all_iff)

lemma extends_by_emit: "extends_by P w w1 \<Longrightarrow> P e \<Longrightarrow> extends_by P w (emit e w1)"
  by (auto simp: extends_by_def)

lemma extends_by_update [simp]:
  "extends_by P w (w1\<lparr>server_proc := x\<rparr>) = extends_by P w w1"
  "extends_by P w (w1\<lparr>server_monitor := y\<rparr>) = extends_by P w w1"
  by (simp_all add: extends_by_def)

lemma extends_by_now: "extends_by P w w' \<Longrightarrow> now w \<le> now w'"
  by (auto simp: extends_by_def now_def)

lemma extends_by_drop: "extends_by P w w' \<Longrightarrow> list_all P (drop (now w) (trace w'))"
  by (auto simp: extends_by_def now_def)



lemma os_kill_quiet:
  "extends_by (quiet_event cfg) w w1 \<Longrightarrow> extends_by (quiet_event cfg) w (snd (os_kill env pid sig w1))"
  by (auto simp: os_kill_def split: sum.splits intro: extends_by_emit)

lemma kill_old_server_quiet:
  "extends_by (quiet_event cfg) w w1 \<Longrightarrow>
     extends_by (quiet_event cfg) w (snd (kill_old_server cfg env old_pid w1))"
  unfolding kill_old_server_def
  by (auto simp: split_beta split: option.splits sum.splits
      intro!: extends_by_emit os_kill_quiet)

lemma wait_ready_quiet:
  "extends_by (quiet_event cfg) w w1 \<Longrightarrow>
     extends_by (quiet_event cfg) w (snd (wait_ready n cfg env w1))"
proof (induction n arbitrary: w1)
  case 0
  then show ?case by simp
next
  case (Suc n)
  have step: "extends_by (quiet_event cfg) w (emit (Urlopen (health_url cfg) 2) (emit (Sleep 250) w1))"
    using Suc.prems by (intro extends_by_emit) simp_all
  from Suc.IH [OF step] step show ?case
    by (auto simp: split_beta split: option.splits sum.splits)
qed

lemma format_startup_failure_quiet:
  "extends_by (quiet_event cfg) w w1 \<Longrightarrow>
     extends_by (quiet_event cfg) w (snd (format_startup_failure cfg env w1))"
  by (auto simp: format_startup_failure_def read_server_log_tail_def split_beta
      split: log_read.splits intro!: extends_by_emit)

lemma start_server_monitor_shape:
  "trace (snd (start_server_monitor cfg env pid w)) = trace w @ [Popen (monitor_cmd cfg pid)]"
  by (simp add: start_server_monitor_def)

lemma start_server_shape:
  "\<exists>es. trace (snd (start_server cfg env w)) = trace w @ OpenAppend (server_log cfg) # es \<and>
        (es = [] \<or>
         (\<exists>es'. es = Popen (server_cmd cfg) # es' \<and>
            (es' = [] \<or>
             (\<exists>qs. es' = Popen (monitor_cmd cfg (spawn_pid_at env (Suc (now w)))) # qs \<and>
                list_all (quiet_event cfg) qs))))"
proof (cases "oserror_at env (now w) \<or> oserror_at env (Suc (now w))")
  case True
  then show ?thesis by (auto simp: start_server_def Let_def)
next
  case False
  define w2 where "w2 = (emit (Popen (server_cmd cfg)) (emit (OpenAppend (server_log cfg)) w))
      \<lparr>server_proc := Some (spawn_pid_at env (Suc (now w)))\<rparr>"
  define w3 where "w3 = snd (start_server_monitor cfg env (spawn_pid_at env (Suc (now w))) w2)"
  have t3: "trace w3 = trace w @ [OpenAppend (server_log cfg), Popen (server_cmd cfg),
      Popen (monitor_cmd cfg (spawn_pid_at env (Suc (now w))))]"
    by (simp add: w3_def w2_def start_server_monitor_shape)
  have "extends_by (quiet_event cfg) w3 (snd (start_server cfg env w))"
    using False
    by (auto simp: start_server_def Let_def split_beta w3_def w2_def
        split: option.splits sum.splits
        intro!: format_startup_failure_quiet wait_ready_quiet)
  then obtain qs where "trace (snd (start_server cfg env w)) = trace w3 @ qs"
    "list_all (quiet_event cfg) qs"
    by (auto simp: extends_by_def)
  with t3 show ?thesis by simp
qed

lemma ensure_server_shape:
  "extends_by (quiet_event cfg) w (snd (ensure_server cfg env w)) \<or>
   (\<exists>w2. extends_by (quiet_event cfg) w w2 \<and> ensure_server cfg env w = start_server cfg env w2)"
proof -
  have hc: "extends_by (quiet_event cfg) w (emit (Urlopen (health_url cfg) 2) w)"
    by (intro extends_by_emit) simp_all
  have ko: "extends_by (quiet_event cfg) w
              (snd (kill_old_server cfg env pid (emit (Urlopen (health_url cfg) 2) w)))" for pid
    by (intro kill_old_server_quiet hc)
  show ?thesis
    unfolding ensure_server_def
    using hc ko
    by (auto simp: split_beta Let_def split: option.splits sum.splits json.splits)
qed

lemma launch_ok_simps [simp]:
  "launch_ok cfg (Urlopen (health_url cfg) t)"
  "launch_ok cfg (UrlopenPost (load_url cfg) d t)"
  "launch_ok cfg (Popen (server_cmd cfg))"
  "launch_ok cfg (Popen (monitor_cmd cfg pid))"
  "launch_ok cfg (OpenAppend f)"
  by (simp_all add: launch_ok_def health_url_def load_url_def SERVER_URL_def server_cmd_def
        monitor_cmd_def)

lemma quiet_launch_ok: "quiet_event cfg e \<Longrightarrow> launch_ok cfg e"
  by (cases e) (simp_all add: quiet_event_def launch_ok_def health_url_def SERVER_URL_def)

lemma start_server_launch_ok:
  "extends_by (launch_ok cfg) w (snd (start_server cfg env w))"
proof -
  from start_server_shape [of cfg env w] obtain es where
    "trace (snd (start_server cfg env w)) = trace w @ OpenAppend (server_log cfg) # es"
    "list_all (launch_ok cfg) es"
    by (auto simp: list_all_iff quiet_launch_ok)
  then show ?thesis by (auto simp: extends_by_def)
qed

lemma ensure_server_launch_ok:
  "extends_by (launch_ok cfg) w (snd (ensure_server cfg env w))"
proof -
  from ensure_server_shape [of cfg w env] show ?thesis
  proof (elim disjE exE conjE)
    assume "extends_by (quiet_event cfg) w (snd (ensure_server cfg env w))"
    then show ?thesis by (rule extends_by_mono) (rule quiet_launch_ok)
  next
    fix w2
    assume q: "extends_by (quiet_event cfg) w w2"
      and e: "ensure_server cfg env w = start_server cfg env w2"
    from q have "extends_by (launch_ok cfg) w w2"
      by (rule extends_by_mono) (rule quiet_launch_ok)
    then show ?thesis
      unfolding e by (rule extends_by_trans) (rule start_server_launch_ok)
  qed
qed

text \<open>
  C10: whatever \<^verbatim>\<open>BUCKAROO_PORT\<close> is, the command that launches the server is exactly
  \<^verbatim>\<open>[sys.executable, "-m", "buckaroo.server"]\<close>, with no port in it, while every health
  probe and the load request go to the port read from \<^verbatim>\<open>BUCKAROO_PORT\<close> (8700 when it is
  unset).
\<close>

theorem launch_command_ignores_port:
  "server_cmd cfg = [sys_executable cfg, ''-m'', ''buckaroo.server''] \<and>
   server_cmd (cfg\<lparr>BUCKAROO_PORT := p\<rparr>) = server_cmd cfg \<and>
   SERVER_PORT (cfg\<lparr>BUCKAROO_PORT := None\<rparr>) = 8700 \<and>
   SERVER_PORT (cfg\<lparr>BUCKAROO_PORT := Some q\<rparr>) = q \<and>
   list_all (launch_ok cfg) (drop (now w) (trace (snd (ensure_server cfg env w)))) \<and>
   list_all (launch_ok cfg) (drop (now w) (trace (snd (view_impl_load cfg env path w))))"
proof -
  have "extends_by (launch_ok cfg) w (snd (view_impl_load cfg env path w))"
    using ensure_server_launch_ok [of cfg w env]
    by (auto simp: view_impl_load_def split_beta split: sum.splits http_outcome.splits
        intro!: extends_by_emit)
  then show ?thesis
    using ensure_server_launch_ok [of cfg w env]
    by (simp add: extends_by_drop server_cmd_def SERVER_PORT_def)
qed

section \<open>Startup timeout\<close>

lemma wait_ready_absent:
  assumes "\<forall>m\<ge>now w. health_result (urlopen_at env m) = Inr None"
  shows "fst (wait_ready n cfg env w) = Inr None \<and>
         trace (snd (wait_ready n cfg env w)) =
           trace w @ concat (replicate n [Sleep 250, Urlopen (health_url cfg) 2]) \<and>
         server_proc (snd (wait_ready n cfg env w)) = server_proc w \<and>
         server_monitor (snd (wait_ready n cfg env w)) = server_monitor w"
  using assms
proof (induction n arbitrary: w)
  case 0
  show ?case by simp
next
  case (Suc n)
  let ?w' = "emit (Urlopen (health_url cfg) 2) (emit (Sleep 250) w)"
  have here: "health_result (urlopen_at env (Suc (now w))) = Inr None"
    using Suc.prems by simp
  have later: "\<forall>m\<ge>now ?w'. health_result (urlopen_at env m) = Inr None"
    using Suc.prems by simp
  have unfold: "wait_ready (Suc n) cfg env w = wait_ready n cfg env ?w'"
    using here by (simp add: health_check_def)
  show ?case
    unfolding unfold using Suc.IH [OF later] by simp
qed



lemma start_server_timeout:
  assumes ok: "\<not> oserror_at env (now w)" "\<not> oserror_at env (Suc (now w))"
      "\<not> oserror_at env (Suc (Suc (now w)))"
    and absent: "\<forall>m>Suc (now w). health_result (urlopen_at env m) = Inr None"
  shows "\<exists>tail. fst (start_server cfg env w) = Inl (RuntimeError (startup_failure_text cfg tail)) \<and>
           trace (snd (start_server cfg env w)) =
             trace w @ [OpenAppend (server_log cfg), Popen (server_cmd cfg),
                        Popen (monitor_cmd cfg (spawn_pid_at env (Suc (now w))))]
               @ concat (replicate 20 [Sleep 250, Urlopen (health_url cfg) 2])
               @ [ReadLog (server_log cfg)]"
proof -
  define w3 where "w3 = (emit (Popen (monitor_cmd cfg (spawn_pid_at env (Suc (now w)))))
      ((emit (Popen (server_cmd cfg)) (emit (OpenAppend (server_log cfg)) w))
         \<lparr>server_proc := Some (spawn_pid_at env (Suc (now w)))\<rparr>))
      \<lparr>server_monitor := Some (spawn_pid_at env (Suc (Suc (now w))))\<rparr>"
  have n3: "now w3 = Suc (Suc (Suc (now w)))"
    by (simp add: w3_def)
  have t3: "trace w3 = trace w @ [OpenAppend (server_log cfg), Popen (server_cmd cfg),
                        Popen (monitor_cmd cfg (spawn_pid_at env (Suc (now w))))]"
    by (simp add: w3_def)
  have "\<forall>m\<ge>now w3. health_result (urlopen_at env m) = Inr None"
    using absent n3 by simp
  note wr = wait_ready_absent [OF this, of 20 cfg]
  define w4 where "w4 = snd (wait_ready 20 cfg env w3)"
  have f4: "wait_ready 20 cfg env w3 = (Inr None, w4)"
    using wr by (simp add: w4_def prod_eq_iff)
  have t4: "trace w4 = trace w3 @ concat (replicate 20 [Sleep 250, Urlopen (health_url cfg) 2])"
    using wr by (simp add: w4_def)
  have run: "start_server cfg env w =
      (case format_startup_failure cfg env w4 of (msg, w5) \<Rightarrow> (Inl (RuntimeError msg), w5))"
    using ok f4
    by (simp add: start_server_def Let_def start_server_monitor_def w3_def)
  show ?thesis
    unfolding run
    by (cases "log_at env (now w4)")
       (auto simp: format_startup_failure_def read_server_log_tail_def t4 t3)
qed



lemma example_paths:
  "server_log example_cfg = ''/home/u/.buckaroo/logs/server.log''"
  "server_cmd example_cfg = [''/usr/bin/python3'', ''-m'', ''buckaroo.server'']"
  by (simp_all add: server_log_def server_cmd_def path_join_def example_cfg_def)


lemma port_9000_urls:
  "health_url port_9000_cfg = ''http://localhost:9000/health''"
  "server_cmd port_9000_cfg = [''/usr/bin/python3'', ''-m'', ''buckaroo.server'']"
  "server_log port_9000_cfg = ''/home/u/.buckaroo/logs/server.log''"
  by (simp_all add: health_url_def SERVER_URL_def SERVER_PORT_def port_9000_cfg_def example_cfg_def
        str_int_def digits.simps digit_char_def server_cmd_def server_log_def path_join_def)

text \<open>
  With \<^verbatim>\<open>BUCKAROO_PORT=9000\<close> and nothing listening, the probe goes to port 9000 and the
  server is launched with the same command as under the default port.
\<close>

theorem launch_command_ignores_port_witness:
  "server_cmd port_9000_cfg = [''/usr/bin/python3'', ''-m'', ''buckaroo.server''] \<and>
   server_cmd port_9000_cfg = server_cmd example_cfg \<and>
   SERVER_PORT port_9000_cfg = 9000 \<and>
   take 4 (trace (snd (ensure_server port_9000_cfg quiet_env initial_world))) =
     [Urlopen ''http://localhost:9000/health'' 2,
      OpenAppend ''/home/u/.buckaroo/logs/server.log'',
      Popen [''/usr/bin/python3'', ''-m'', ''buckaroo.server''],
      Popen (monitor_cmd port_9000_cfg 1002)] \<and>
   list_all (launch_ok port_9000_cfg)
     (trace (snd (ensure_server port_9000_cfg quiet_env initial_world)))"
proof -
  let ?w1 = "emit (Urlopen (health_url port_9000_cfg) 2) initial_world"
  have e: "ensure_server port_9000_cfg quiet_env initial_world
             = start_server port_9000_cfg quiet_env ?w1"
    by (simp add: ensure_server_def health_check_def)
  have "\<exists>tail. fst (start_server port_9000_cfg quiet_env ?w1)
             = Inl (RuntimeError (startup_failure_text port_9000_cfg tail)) \<and>
           trace (snd (start_server port_9000_cfg quiet_env ?w1)) =
             trace ?w1 @ [OpenAppend (server_log port_9000_cfg), Popen (server_cmd port_9000_cfg),
                        Popen (monitor_cmd port_9000_cfg (spawn_pid_at quiet_env (Suc (now ?w1))))]
               @ concat (replicate 20 [Sleep 250, Urlopen (health_url port_9000_cfg) 2])
               @ [ReadLog (server_log port_9000_cfg)]"
    by (rule start_server_timeout) simp_all
  then have t: "take 4 (trace (snd (ensure_server port_9000_cfg quiet_env initial_world))) =
      [Urlopen (health_url port_9000_cfg) 2, OpenAppend (server_log port_9000_cfg),
       Popen (server_cmd port_9000_cfg), Popen (monitor_cmd port_9000_cfg 1002)]"
    unfolding e by auto
  have p: "port_9000_cfg\<lparr>BUCKAROO_PORT := Some 9000\<rparr> = port_9000_cfg"
    "example_cfg\<lparr>BUCKAROO_PORT := Some 9000\<rparr> = port_9000_cfg"
    by (simp_all add: port_9000_cfg_def)
  show ?thesis
    using launch_command_ignores_port [of port_9000_cfg "Some 9000" 9000 initial_world quiet_env]
      launch_command_ignores_port [of example_cfg "Some 9000" 9000 initial_world quiet_env]
    by (simp add: t p port_9000_urls)
qed

section \<open>Two calls in a row, and the teardown of another version\<close>

lemma health_result_Some:
  "health_result outcome = Inr (Some h) \<longleftrightarrow> outcome = Response 200 (Json h)"
  by (cases outcome) (auto split: http_body.splits)

lemma started_Inr:
  "started h = Inr info \<Longrightarrow> \<exists>health. h = JObj health \<and> info = info_of ''started'' health"
  by (auto simp: started_def split: json.splits sum.splits)

lemma wait_ready_success:
  "wait_ready n cfg env w = (Inr (Some info), w1) \<Longrightarrow>
     0 < now w1 \<and>
     (\<exists>health. urlopen_at env (now w1 - 1) = Response 200 (Json (JObj health)) \<and>
        health \<noteq> [] \<and> info = info_of ''started'' health)"
proof (induction n arbitrary: w)
  case 0
  then show ?case by simp
next
  case (Suc n)
  let ?w' = "emit (Urlopen (health_url cfg) 2) (emit (Sleep 250) w)"
  show ?case
  proof (cases "health_result (urlopen_at env (Suc (now w)))")
    case (Inl e)
    with Suc.prems show ?thesis by (simp add: health_check_def)
  next
    case (Inr health)
    show ?thesis
    proof (cases health)
      case None
      with Inr Suc.prems have "wait_ready n cfg env ?w' = (Inr (Some info), w1)"
        by (simp add: health_check_def)
      then show ?thesis by (rule Suc.IH)
    next
      case (Some h)
      show ?thesis
      proof (cases "py_bool h")
        case False
        with Some Inr Suc.prems have "wait_ready n cfg env ?w' = (Inr (Some info), w1)"
          by (simp add: health_check_def)
        then show ?thesis by (rule Suc.IH)
      next
        case True
        with Some Inr Suc.prems have s: "started h = Inr info" and w1: "w1 = ?w'"
          by (auto simp: health_check_def split: sum.splits)
        from started_Inr [OF s] obtain health' where
          h: "h = JObj health'" "info = info_of ''started'' health'" by blast
        from Inr Some have "urlopen_at env (Suc (now w)) = Response 200 (Json h)"
          by (simp add: health_result_Some)
        with h True w1 show ?thesis by auto
      qed
    qed
  qed
qed

lemma wait_ready_success_snd:
  assumes "fst (wait_ready n cfg env w) = Inr (Some info)"
  shows "0 < now (snd (wait_ready n cfg env w)) \<and>
     (\<exists>health. urlopen_at env (now (snd (wait_ready n cfg env w)) - 1)
          = Response 200 (Json (JObj health)) \<and>
        health \<noteq> [] \<and> info = info_of ''started'' health)"
  by (rule wait_ready_success [of n cfg env w]) (simp add: prod_eq_iff assms)

lemma start_server_success:
  assumes "start_server cfg env w = (Inr info, w1)"
  shows "0 < now w1 \<and>
     (\<exists>health. urlopen_at env (now w1 - 1) = Response 200 (Json (JObj health)) \<and>
        health \<noteq> [] \<and> info = info_of ''started'' health)"
  using assms unfolding start_server_def
  by (auto simp: Let_def split_beta prod_eq_iff split: if_splits option.splits sum.splits
      dest!: wait_ready_success_snd)

lemma start_server_success_snd:
  assumes "fst (start_server cfg env w) = Inr info"
  shows "0 < now (snd (start_server cfg env w)) \<and>
     (\<exists>health. urlopen_at env (now (snd (start_server cfg env w)) - 1)
          = Response 200 (Json (JObj health)) \<and>
        health \<noteq> [] \<and> info = info_of ''started'' health)"
  by (rule start_server_success [of cfg env w]) (simp add: prod_eq_iff assms)

lemma ensure_server_success:
  assumes "ensure_server cfg env w = (Inr info, w1)"
  shows "0 < now w1 \<and>
     (\<exists>health. urlopen_at env (now w1 - 1) = Response 200 (Json (JObj health)) \<and>
        health \<noteq> [] \<and>
        (info = info_of ''started'' health \<or>
         info = info_of ''reused'' health \<and>
         dict_get health ''version'' (JStr ''unknown'') = JStr (expected_version cfg)))"
  using assms unfolding ensure_server_def
  by (auto simp: Let_def split_beta prod_eq_iff health_result_Some
      split: if_splits option.splits sum.splits json.splits
      dest!: start_server_success_snd)

text \<open>
  C2, as the code has it: when a first call succeeds, the probe of the second call meets
  what the last probe of the first call met, and the report carries the expected version
  (as it always does when the first call returned \<open>reused\<close>; a first call that returned
  \<open>started\<close> did not compare the version), the second call returns \<open>reused\<close> with the same
  pid and uptime, and its only event is the probe: nothing is spawned.
\<close>

theorem ensure_server_twice_reuses:
  assumes first: "ensure_server cfg env w = (Inr info, w1)"
    and same: "urlopen_at env (now w1) = urlopen_at env (now w1 - 1)"
    and version: "server_status info = ''reused'' \<or>
       (\<exists>health. urlopen_at env (now w1 - 1) = Response 200 (Json (JObj health)) \<and>
          dict_get health ''version'' (JStr ''unknown'') = JStr (expected_version cfg))"
  shows "ensure_server cfg env w1 =
           (Inr (info\<lparr>server_status := ''reused''\<rparr>), emit (Urlopen (health_url cfg) 2) w1)"
proof -
  from ensure_server_success [OF first] obtain health where
    last: "urlopen_at env (now w1 - 1) = Response 200 (Json (JObj health))"
    and ne: "health \<noteq> []"
    and info: "info = info_of ''started'' health \<or>
         info = info_of ''reused'' health \<and>
         dict_get health ''version'' (JStr ''unknown'') = JStr (expected_version cfg)"
    by blast
  have matches: "dict_get health ''version'' (JStr ''unknown'') = JStr (expected_version cfg)"
    using info version last by (auto simp: info_of_def)
  have "info\<lparr>server_status := ''reused''\<rparr> = info_of ''reused'' health"
    using info by (auto simp: info_of_def)
  then show ?thesis
    using same last ne matches by (simp add: ensure_server_def health_check_def)
qed

lemma started_report_501:
  "started (report_501 v) =
     Inr \<lparr>server_status = ''started'', server_pid = JInt 501, server_uptime_s = JInt 0\<rparr>"
  by (simp add: started_def report_501_def missing_static_def dict_get_def info_of_def)

lemma py_bool_report_501 [simp]: "py_bool (report_501 v)"
  by (simp add: report_501_def)

lemma wait_ready_first_up:
  assumes "health_result (urlopen_at env (Suc (now w))) = Inr (Some h)" "py_bool h"
  shows "wait_ready 20 cfg env w =
     (case started h of
        Inl e \<Rightarrow> (Inl e, emit (Urlopen (health_url cfg) 2) (emit (Sleep 250) w))
      | Inr info \<Rightarrow> (Inr (Some info), emit (Urlopen (health_url cfg) 2) (emit (Sleep 250) w)))"
  using assms wait_ready.simps(2) [of 19 cfg env w] by (simp add: health_check_def)

lemma fresh_first:
  "ensure_server example_cfg fresh_env initial_world =
     (Inr \<lparr>server_status = ''started'', server_pid = JInt 501, server_uptime_s = JInt 0\<rparr>,
      initial_world\<lparr>trace := [Urlopen (health_url example_cfg) 2, OpenAppend (server_log example_cfg),
         Popen (server_cmd example_cfg), Popen (monitor_cmd example_cfg 1002),
         Sleep 250, Urlopen (health_url example_cfg) 2],
        server_proc := Some 1002, server_monitor := Some 1003\<rparr>)"
  by (simp add: ensure_server_def health_check_def start_server_def start_server_monitor_def
      fresh_env_def quiet_env_def Let_def wait_ready_first_up started_report_501)

theorem ensure_server_twice_reuses_witness:
  "fst (ensure_server example_cfg fresh_env initial_world) =
     Inr \<lparr>server_status = ''started'', server_pid = JInt 501, server_uptime_s = JInt 0\<rparr> \<and>
   ensure_server example_cfg fresh_env (snd (ensure_server example_cfg fresh_env initial_world)) =
     (Inr \<lparr>server_status = ''reused'', server_pid = JInt 501, server_uptime_s = JInt 0\<rparr>,
      emit (Urlopen ''http://localhost:8700/health'' 2)
        (snd (ensure_server example_cfg fresh_env initial_world)))"
proof -
  let ?w1 = "snd (ensure_server example_cfg fresh_env initial_world)"
  let ?info = "\<lparr>server_status = ''started'', server_pid = JInt 501, server_uptime_s = JInt 0\<rparr>"
  have first: "ensure_server example_cfg fresh_env initial_world = (Inr ?info, ?w1)"
    by (simp add: fresh_first)
  have n: "now ?w1 = 6"
    by (simp add: fresh_first now_def)
  have same: "urlopen_at fresh_env (now ?w1) = urlopen_at fresh_env (now ?w1 - 1)"
    unfolding n by (simp add: fresh_env_def)
  have version: "server_status ?info = ''reused'' \<or>
       (\<exists>health. urlopen_at fresh_env (now ?w1 - 1) = Response 200 (Json (JObj health)) \<and>
          dict_get health ''version'' (JStr ''unknown'') = JStr (expected_version example_cfg))"
    unfolding n by (simp add: fresh_env_def report_501_def dict_get_def example_expected_version)
  show ?thesis
    using ensure_server_twice_reuses [OF first same version]
    by (simp add: fresh_first example_urls)
qed

lemma stale_first:
  "ensure_server example_cfg stale_env initial_world =
     (Inr \<lparr>server_status = ''started'', server_pid = JInt 501, server_uptime_s = JInt 0\<rparr>,
      initial_world\<lparr>trace := [Urlopen (health_url example_cfg) 2, OsKill 501 SIGTERM,
         OpenAppend (server_log example_cfg),
         Popen (server_cmd example_cfg), Popen (monitor_cmd example_cfg 1003),
         Sleep 250, Urlopen (health_url example_cfg) 2],
        server_proc := Some 1003, server_monitor := Some 1004\<rparr>)"
proof -
  have v: "dict_get [(''status'', JStr ''ok''), (''pid'', JInt 501), (''version'', JStr ''1.1.0'')]
             ''version'' (JStr ''unknown'') = JStr ''1.1.0''"
    "dict_get [(''status'', JStr ''ok''), (''pid'', JInt 501), (''version'', JStr ''1.1.0'')]
             ''pid'' JNull = JInt 501"
    by (simp_all add: dict_get_def)
  have r: "report_501 ''1.1.0'' =
      JObj [(''status'', JStr ''ok''), (''pid'', JInt 501), (''version'', JStr ''1.1.0'')]"
    by (simp add: report_501_def)
  show ?thesis
    by (simp add: ensure_server_def health_check_def kill_old_server_def os_kill_def
        start_server_def start_server_monitor_def stale_env_def answering_def quiet_env_def Let_def
        wait_ready_first_up [where h = "report_501 ''1.1.0''"]
        started_report_501 [unfolded report_501_def]
        example_expected_version r v)
qed

text \<open>
  C2 as stated fails: a server of another version that cannot be signalled keeps
  answering, so the first call launches, sees a report and returns \<open>started\<close> without
  comparing the version; the second call, meeting the same report, tears down and
  launches again: it returns \<open>started\<close> and spawns a second server process.
\<close>

theorem second_call_starts_again:
  "urlopen_at stale_env 7 = urlopen_at stale_env 6 \<and>
   fst (ensure_server example_cfg stale_env initial_world) =
     Inr \<lparr>server_status = ''started'', server_pid = JInt 501, server_uptime_s = JInt 0\<rparr> \<and>
   fst (ensure_server example_cfg stale_env (snd (ensure_server example_cfg stale_env initial_world))) =
     Inr \<lparr>server_status = ''started'', server_pid = JInt 501, server_uptime_s = JInt 0\<rparr> \<and>
   drop 7 (trace (snd (ensure_server example_cfg stale_env
                   (snd (ensure_server example_cfg stale_env initial_world))))) =
     [Urlopen ''http://localhost:8700/health'' 2, OsKill 501 SIGTERM,
      OpenAppend ''/home/u/.buckaroo/logs/server.log'',
      Popen [''/usr/bin/python3'', ''-m'', ''buckaroo.server''],
      Popen (monitor_cmd example_cfg 1010),
      Sleep 250, Urlopen ''http://localhost:8700/health'' 2]"
proof -
  have v: "dict_get [(''status'', JStr ''ok''), (''pid'', JInt 501), (''version'', JStr ''1.1.0'')]
             ''version'' (JStr ''unknown'') = JStr ''1.1.0''"
    "dict_get [(''status'', JStr ''ok''), (''pid'', JInt 501), (''version'', JStr ''1.1.0'')]
             ''pid'' JNull = JInt 501"
    by (simp_all add: dict_get_def)
  have r: "report_501 ''1.1.0'' =
      JObj [(''status'', JStr ''ok''), (''pid'', JInt 501), (''version'', JStr ''1.1.0'')]"
    by (simp add: report_501_def)
  show ?thesis
    unfolding stale_first
    by (simp add: ensure_server_def health_check_def kill_old_server_def os_kill_def
        start_server_def start_server_monitor_def stale_env_def answering_def quiet_env_def Let_def
        wait_ready_first_up [where h = "report_501 ''1.1.0''"]
        started_report_501 [unfolded report_501_def]
        example_expected_version example_urls example_paths r v now_def)
qed





end
